theory Spec2Isabelle
  imports Complex_Main
begin

section \<open>Python strings used by the position normaliser\<close>

text \<open>
  The placement strings handled by \<^verbatim>\<open>sicily.py\<close> are FEN piece placements: ASCII
  letters, digits and the separator \<^verbatim>\<open>/\<close>. They are modelled as \<^typ>\<open>string\<close>, and the
  character classes of Python's \<^verbatim>\<open>str\<close> are given on ASCII, where
  \<^verbatim>\<open>c.isupper()\<close> holds exactly for A..Z and \<^verbatim>\<open>c.islower()\<close> exactly for a..z.
\<close>

definition isupper :: "char \<Rightarrow> bool" where
  "isupper c \<longleftrightarrow> c \<in> set ''ABCDEFGHIJKLMNOPQRSTUVWXYZ''"

definition islower :: "char \<Rightarrow> bool" where
  "islower c \<longleftrightarrow> c \<in> set ''abcdefghijklmnopqrstuvwxyz''"

definition isalpha :: "char \<Rightarrow> bool" where
  "isalpha c \<longleftrightarrow> isupper c \<or> islower c"

text \<open>
  \<^verbatim>\<open>s.split('/')\<close>: the pieces between the separators, in order. The result is never
  empty; a string without separator is its own single piece.
\<close>

fun py_split :: "char \<Rightarrow> string \<Rightarrow> string list" where
  "py_split sep [] = [[]]"
| "py_split sep (c # cs) =
     (if c = sep then [] # py_split sep cs
      else (case py_split sep cs of
              [] \<Rightarrow> [[c]]
            | r # rs \<Rightarrow> (c # r) # rs))"

text \<open>\<^verbatim>\<open>sep.join(parts)\<close>.\<close>

fun py_join :: "string \<Rightarrow> string list \<Rightarrow> string" where
  "py_join sep [] = []"
| "py_join sep [x] = x"
| "py_join sep (x # y # ys) = x @ sep @ py_join sep (y # ys)"

text \<open>\<^verbatim>\<open>sum(1 for c in s if p(c))\<close>: the loop adds one per character that passes.\<close>

fun count_chars :: "(char \<Rightarrow> bool) \<Rightarrow> string \<Rightarrow> nat" where
  "count_chars p [] = 0"
| "count_chars p (c # cs) = (if p c then 1 else 0) + count_chars p cs"

section \<open>Orientation detection and rotation (sicily.py, lines 106 to 164)\<close>

text \<open>
  Both functions wrap their body in \<^verbatim>\<open>try: ... except:\<close>. On a \<^verbatim>\<open>str\<close> argument no
  operation of the body can raise: \<^verbatim>\<open>split\<close> returns a non-empty list, so
  \<^verbatim>\<open>ranks[-1]\<close> and \<^verbatim>\<open>ranks[0]\<close> exist. The handler is reached when the argument is not
  a string; the argument is therefore a \<^typ>\<open>string option\<close>, where \<^term>\<open>None\<close> is
  Python's \<^verbatim>\<open>None\<close>, on which \<^verbatim>\<open>fen.split\<close> raises AttributeError.
\<close>

definition detect_board_orientation :: "string option \<Rightarrow> string \<times> string" where
  "detect_board_orientation fen =
     (case fen of
        None \<Rightarrow> (''normal'', ''w'')
      | Some s \<Rightarrow>
          (let ranks = py_split CHR ''/'' s;
               bottom_rank = last ranks;
               top_rank = hd ranks;
               bottom_white = count_chars (\<lambda>c. isupper c \<and> isalpha c) bottom_rank;
               bottom_black = count_chars (\<lambda>c. islower c \<and> isalpha c) bottom_rank;
               top_white = count_chars (\<lambda>c. isupper c \<and> isalpha c) top_rank;
               top_black = count_chars (\<lambda>c. islower c \<and> isalpha c) top_rank
           in if bottom_white > bottom_black then (''normal'', ''w'')
              else if bottom_black > bottom_white then (''flipped'', ''b'')
              else if CHR ''r'' \<in> set bottom_rank \<or> CHR ''k'' \<in> set bottom_rank
                      \<or> CHR ''q'' \<in> set bottom_rank
                   then (''flipped'', ''b'')
                   else (''normal'', ''w'')))"

text \<open>
  \<^verbatim>\<open>flip_fen\<close>: the loop walks \<^verbatim>\<open>reversed(ranks)\<close> and appends \<^verbatim>\<open>rank[::-1]\<close>; the
  handler returns the argument itself.
\<close>

definition flip_fen :: "string option \<Rightarrow> string option" where
  "flip_fen fen =
     (case fen of
        None \<Rightarrow> None
      | Some s \<Rightarrow>
          (let ranks = py_split CHR ''/'' s;
               flipped_ranks = map rev (rev ranks)
           in Some (py_join ''/'' flipped_ranks)))"

section \<open>Square to pixel mapping (test.py, lines 17 to 46)\<close>

datatype py_exception = AttributeError | ValueError | TypeError | EngineError

text \<open>\<^verbatim>\<open>ord(c)\<close> on ASCII.\<close>

definition py_ord :: "char \<Rightarrow> int" where
  "py_ord c = int (of_char c)"

text \<open>
  \<^verbatim>\<open>int(c)\<close> for a string of one character: the value of a decimal digit, ValueError
  for every other character.
\<close>

definition py_int_of_char :: "char \<Rightarrow> py_exception + int" where
  "py_int_of_char c =
     (if c \<in> set ''0123456789'' then Inr (py_ord c - py_ord CHR ''0'') else Inl ValueError)"

text \<open>
  \<^verbatim>\<open>int(x)\<close> for a float \<^verbatim>\<open>x\<close> truncates toward zero. The floats of
  \<^verbatim>\<open>square_to_coordinates\<close> are modelled by exact rationals: with integer corners every
  intermediate value is a multiple of one sixteenth, which binary floating point
  represents exactly for all pixel coordinates that occur (magnitudes far below
  \<open>2\<^sup>4\<^sup>8\<close>), so the float computation and the exact one agree.
\<close>

definition py_int_of_float :: "rat \<Rightarrow> int" where
  "py_int_of_float x = (if 0 \<le> x then \<lfloor>x\<rfloor> else \<lceil>x\<rceil>)"

text \<open>
  \<^verbatim>\<open>corners\<close> is \<^verbatim>\<open>[x0, y0, x1, y1]\<close>. The only guard is the length check; the result
  \<^term>\<open>Inr None\<close> is Python's \<^verbatim>\<open>return None\<close>, and \<^term>\<open>Inl e\<close> an exception that
  leaves the function.
\<close>

definition square_to_coordinates ::
  "string \<Rightarrow> int \<times> int \<times> int \<times> int \<Rightarrow> py_exception + (int \<times> int) option" where
  "square_to_coordinates square corners =
     (if length square \<noteq> 2 then Inr None
      else
        (let file = py_ord (square ! 0) - py_ord CHR ''a'' in
         case py_int_of_char (square ! 1) of
           Inl e \<Rightarrow> Inl e
         | Inr d \<Rightarrow>
             (let rank = d - 1;
                  (x0, y0, x1, y1) = corners;
                  board_width = x1 - x0;
                  board_height = y1 - y0;
                  square_width = rat_of_int board_width / 8;
                  square_height = rat_of_int board_height / 8;
                  x = rat_of_int x0 + (rat_of_int file + 1 / 2) * square_width;
                  y = rat_of_int y1 - (rat_of_int rank + 1 / 2) * square_height
              in Inr (Some (py_int_of_float x, py_int_of_float y)))))"

section \<open>The engine as an environment\<close>

text \<open>
  The Stockfish session is an external process. Every call the pipeline makes is
  recorded, with its answer, as an \<open>event\<close>; the engine is a record of answer functions,
  each of which sees the events so far, so an engine may answer the same call
  differently over time (a process that crashes half way, a fresh session after a
  restart). An answer \<^term>\<open>Inl e\<close> is a raised exception.
\<close>

record move_data =
  Move :: string
  Centipawn :: "int option"
  Mate :: "int option"

datatype py_value = PyNone | PyInt int | PyStr string

text \<open>An evaluation is a dict with string keys, or some other object.\<close>

datatype evaluation = EvalDict "string \<rightharpoonup> py_value" | EvalOther py_value

datatype event =
    IsFenValid string "py_exception + bool"
  | SetFenPosition string "py_exception + unit"
  | GetTopMoves nat "py_exception + move_data list option"
  | GetBestMove "py_exception + string option"
  | GetEvaluation "py_exception + evaluation"
  | InitStockfish bool

text \<open>
  \<open>init_stockfish\<close> (sicily.py, lines 195 to 217) catches every exception of the
  constructor and of the configuration calls and returns \<^verbatim>\<open>None\<close>; its answer is
  whether a session was returned. \<open>get_top_moves\<close> and \<open>get_best_move\<close> may return
  \<^verbatim>\<open>None\<close>.
\<close>

record engine =
  is_fen_valid :: "event list \<Rightarrow> string \<Rightarrow> py_exception + bool"
  set_fen_position :: "event list \<Rightarrow> string \<Rightarrow> py_exception + unit"
  get_top_moves :: "event list \<Rightarrow> nat \<Rightarrow> py_exception + move_data list option"
  get_best_move :: "event list \<Rightarrow> py_exception + string option"
  get_evaluation :: "event list \<Rightarrow> py_exception + evaluation"
  init_stockfish :: "event list \<Rightarrow> bool"

text \<open>
  What one run of \<open>test_move_generation\<close> leaves behind: the returned triple
  \<^verbatim>\<open>(fen, best_move, success)\<close>, the engine events in order, and the evaluation and the
  ranked lines it printed (nothing when it returned before printing them).
\<close>

record outcome =
  returned :: "string \<times> string option \<times> bool"
  calls :: "event list"
  shown_evaluation :: "evaluation option"
  shown_top_moves :: "(string \<times> int option) list"

definition failure :: "string \<Rightarrow> event list \<Rightarrow> outcome" where
  "failure fen h =
     \<lparr>returned = (fen, None, False), calls = h, shown_evaluation = None,
      shown_top_moves = []\<rparr>"

section \<open>Evaluation display (sicily.py, lines 424 to 440)\<close>

text \<open>\<^verbatim>\<open>d.get(k)\<close>: \<^verbatim>\<open>None\<close> for a missing key.\<close>

definition dict_get :: "(string \<rightharpoonup> py_value) \<Rightarrow> string \<Rightarrow> py_value" where
  "dict_get d k = (case d k of None \<Rightarrow> PyNone | Some v \<Rightarrow> v)"

text \<open>Unary minus: defined on numbers, TypeError on a string or \<^verbatim>\<open>None\<close>.\<close>

definition py_neg :: "py_value \<Rightarrow> py_exception + py_value" where
  "py_neg v = (case v of PyInt n \<Rightarrow> Inr (PyInt (- n)) | _ \<Rightarrow> Inl TypeError)"

text \<open>
  Lines 425 to 430: the copy of the evaluation that is printed. The two branches for
  \<^verbatim>\<open>cp\<close> and \<^verbatim>\<open>mate\<close> are kept apart as in the source.
\<close>

definition display_evaluation :: "string \<Rightarrow> evaluation \<Rightarrow> py_exception + evaluation" where
  "display_evaluation active_player evaluation =
     (case evaluation of
        EvalOther v \<Rightarrow> Inr (EvalOther v)
      | EvalDict d \<Rightarrow>
          if active_player = ''b'' then
            (if dict_get d ''type'' = PyStr ''cp'' \<and> dict_get d ''value'' \<noteq> PyNone then
               (case py_neg (dict_get d ''value'') of
                  Inl e \<Rightarrow> Inl e
                | Inr v \<Rightarrow> Inr (EvalDict (d(''value'' \<mapsto> v))))
             else if dict_get d ''type'' = PyStr ''mate'' \<and> dict_get d ''value'' \<noteq> PyNone then
               (case py_neg (dict_get d ''value'') of
                  Inl e \<Rightarrow> Inl e
                | Inr v \<Rightarrow> Inr (EvalDict (d(''value'' \<mapsto> v))))
             else Inr (EvalDict d))
          else Inr (EvalDict d))"

text \<open>
  Lines 436 to 440: one printed line per ranked move, the move and the centipawn
  score; the \<^verbatim>\<open>Mate\<close> entry of the move is not read.
\<close>

definition top_move_line :: "string \<Rightarrow> move_data \<Rightarrow> string \<times> int option" where
  "top_move_line active_player md =
     (let centipawn = Centipawn md;
          centipawn = (if active_player = ''b'' \<and> centipawn \<noteq> None
                       then map_option uminus centipawn else centipawn)
      in (Move md, centipawn))"

definition placeholder_evaluation :: evaluation where
  "placeholder_evaluation =
     EvalDict [''type'' \<mapsto> PyStr ''unknown'', ''value'' \<mapsto> PyStr ''N/A'']"

section \<open>Move generation in sicily.py (lines 336 to 446)\<close>

text \<open>
  The code is one \<^verbatim>\<open>try\<close> block whose handler returns \<^verbatim>\<open>(fen, None, False)\<close>. It is
  given here in the order of the source, last part first: each part takes the events
  so far and returns the outcome of the whole run.
\<close>

text \<open>
  Lines 408 to 442: an empty or missing ranked list is a failure; otherwise the best
  move is the first entry, and a raising \<open>get_evaluation\<close> is replaced by the
  placeholder.
\<close>

definition finish_query ::
  "engine \<Rightarrow> event list \<Rightarrow> string \<Rightarrow> string \<Rightarrow> string \<Rightarrow> move_data list option \<Rightarrow> outcome" where
  "finish_query E h fen short_fen active_player top_moves =
     (case top_moves of
        None \<Rightarrow> failure fen h
      | Some [] \<Rightarrow> failure fen h
      | Some (m # ms) \<Rightarrow>
          (let best_move = Move m;
               r = get_evaluation E h;
               h1 = h @ [GetEvaluation r];
               evaluation = (case r of Inl e \<Rightarrow> placeholder_evaluation | Inr ev \<Rightarrow> ev)
           in case display_evaluation active_player evaluation of
                Inl e \<Rightarrow> failure fen h1
              | Inr shown \<Rightarrow>
                  \<lparr>returned = (short_fen, Some best_move, True), calls = h1,
                   shown_evaluation = Some shown,
                   shown_top_moves = map (top_move_line active_player) (m # ms)\<rparr>))"

text \<open>
  Lines 396 to 406: the single best-move request of the last resort. \<^verbatim>\<open>if best_move\<close>
  is false for \<^verbatim>\<open>None\<close> and for the empty string.
\<close>

definition best_move_fallback :: "engine \<Rightarrow> event list \<Rightarrow> string \<Rightarrow> string \<Rightarrow> outcome" where
  "best_move_fallback E h fen short_fen =
     (let r = get_best_move E h;
          h1 = h @ [GetBestMove r]
      in case r of
           Inl e3 \<Rightarrow> failure fen h1
         | Inr None \<Rightarrow> failure fen h1
         | Inr (Some []) \<Rightarrow> failure fen h1
         | Inr (Some (c # cs)) \<Rightarrow>
             \<lparr>returned = (short_fen, Some (c # cs), True), calls = h1,
              shown_evaluation = None, shown_top_moves = []\<rparr>)"

text \<open>
  Lines 375 to 410: the ranked request; when it raises, one restart, the position set
  again and the request repeated inside one \<^verbatim>\<open>try\<close>, whose handler is the best-move
  fallback.
\<close>

definition query_top_moves ::
  "engine \<Rightarrow> event list \<Rightarrow> string \<Rightarrow> string \<Rightarrow> string \<Rightarrow> string \<Rightarrow> outcome" where
  "query_top_moves E h fen short_fen full_fen active_player =
     (let r1 = get_top_moves E h 3;
          h1 = h @ [GetTopMoves 3 r1]
      in case r1 of
           Inr top_moves \<Rightarrow> finish_query E h1 fen short_fen active_player top_moves
         | Inl e \<Rightarrow>
             (let stockfish = init_stockfish E h1;
                  h2 = h1 @ [InitStockfish stockfish]
              in if \<not> stockfish then failure fen h2
                 else
                   (let r2 = set_fen_position E h2 full_fen;
                        h3 = h2 @ [SetFenPosition full_fen r2]
                    in case r2 of
                         Inl e2 \<Rightarrow> best_move_fallback E h3 fen short_fen
                       | Inr u \<Rightarrow>
                           (let r3 = get_top_moves E h3 3;
                                h4 = h3 @ [GetTopMoves 3 r3]
                            in case r3 of
                                 Inl e2 \<Rightarrow> best_move_fallback E h4 fen short_fen
                               | Inr top_moves \<Rightarrow>
                                   finish_query E h4 fen short_fen active_player top_moves))))"

definition start_position :: string where
  "start_position = ''rnbqkbnr/pppppppp/8/8/8/8/PPPPPPPP/RNBQKBNR w KQkq - 0 1''"

text \<open>
  Lines 362 to 373: the validated position is set, then the engine is probed with the
  starting position. A raise of \<open>set_fen_position\<close> reaches the outer handler.
\<close>

definition set_position_and_query ::
  "engine \<Rightarrow> event list \<Rightarrow> string \<Rightarrow> string \<Rightarrow> string \<Rightarrow> string \<Rightarrow> outcome" where
  "set_position_and_query E h fen short_fen full_fen active_player =
     (let r0 = set_fen_position E h full_fen;
          h1 = h @ [SetFenPosition full_fen r0]
      in case r0 of
           Inl e \<Rightarrow> failure fen h1
         | Inr u \<Rightarrow>
             (let r1 = is_fen_valid E h1 start_position;
                  h2 = h1 @ [IsFenValid start_position r1]
              in case r1 of
                   Inl e \<Rightarrow> failure fen h2
                 | Inr ok \<Rightarrow>
                     if \<not> ok then failure fen h2
                     else query_top_moves E h2 fen short_fen full_fen active_player))"

text \<open>
  Lines 340 to 360: the repair of the position string. \<^verbatim>\<open>full_fen\<close> enters as
  \<^verbatim>\<open>f"{short_fen} {active_player} KQkq - 0 1"\<close> (lines 315 and 331).
\<close>

definition full_fen_of :: "string \<Rightarrow> string \<Rightarrow> string" where
  "full_fen_of short_fen active_player = short_fen @ '' '' @ active_player @ '' KQkq - 0 1''"

definition simplified_fen_of :: "string \<Rightarrow> string \<Rightarrow> string" where
  "simplified_fen_of short_fen active_player = short_fen @ '' '' @ active_player @ '' - - 0 1''"

datatype repair_result =
    Accepted string string
  | RepairFailure string
  | RepairRaised py_exception

definition repair :: "engine \<Rightarrow> event list \<Rightarrow> string \<Rightarrow> string \<Rightarrow> repair_result \<times> event list" where
  "repair E h short_fen active_player =
     (let full_fen = full_fen_of short_fen active_player;
          r1 = is_fen_valid E h full_fen;
          h1 = h @ [IsFenValid full_fen r1]
      in case r1 of
           Inl e \<Rightarrow> (RepairRaised e, h1)
         | Inr ok1 \<Rightarrow>
             if ok1 then (Accepted full_fen active_player, h1)
             else
               (let simplified_fen = simplified_fen_of short_fen active_player;
                    r2 = is_fen_valid E h1 simplified_fen;
                    h2 = h1 @ [IsFenValid simplified_fen r2]
                in case r2 of
                     Inl e \<Rightarrow> (RepairRaised e, h2)
                   | Inr ok2 \<Rightarrow>
                       if ok2 then (Accepted simplified_fen active_player, h2)
                       else
                         (let opposite_player = (if active_player = ''w'' then ''b'' else ''w'');
                              opposite_fen = simplified_fen_of short_fen opposite_player;
                              r3 = is_fen_valid E h2 opposite_fen;
                              h3 = h2 @ [IsFenValid opposite_fen r3]
                          in case r3 of
                               Inl e \<Rightarrow> (RepairRaised e, h3)
                             | Inr ok3 \<Rightarrow>
                                 if ok3 then (Accepted opposite_fen opposite_player, h3)
                                 else (RepairFailure short_fen, h3))))"

text \<open>
  The whole of lines 336 to 446, from the first engine call on. \<^verbatim>\<open>fen\<close> is the
  unshortened placement the handler returns, \<^verbatim>\<open>short_fen\<close> the placement after
  orientation correction.
\<close>

definition test_move_generation :: "engine \<Rightarrow> string \<Rightarrow> string \<Rightarrow> string \<Rightarrow> outcome" where
  "test_move_generation E fen short_fen active_player =
     (case repair E [] short_fen active_player of
        (RepairRaised e, h) \<Rightarrow> failure fen h
      | (RepairFailure placement, h) \<Rightarrow> failure placement h
      | (Accepted full_fen player, h) \<Rightarrow>
          set_position_and_query E h fen short_fen full_fen player)"

section \<open>Move generation in test.py (lines 256 to 304)\<close>

text \<open>
  The older entry script. It sets the position first and checks it afterwards, and a
  repaired position string is not set again. The returned tuple also carries
  \<^verbatim>\<open>corners\<close> and \<^verbatim>\<open>img\<close>, which are only passed through and are left out.
  Iterating over a ranked list that is \<^verbatim>\<open>None\<close> raises TypeError into the handler.
\<close>

definition test_py_best_move ::
  "engine \<Rightarrow> event list \<Rightarrow> string \<Rightarrow> string \<Rightarrow> outcome" where
  "test_py_best_move E h fen short_fen =
     (let r1 = get_best_move E h;
          h1 = h @ [GetBestMove r1]
      in case r1 of
           Inl e \<Rightarrow> failure fen h1
         | Inr None \<Rightarrow> failure fen h1
         | Inr (Some best_move) \<Rightarrow>
             (let r2 = get_evaluation E h1;
                  h2 = h1 @ [GetEvaluation r2]
              in case r2 of
                   Inl e \<Rightarrow> failure fen h2
                 | Inr evaluation \<Rightarrow>
                     (let r3 = get_top_moves E h2 3;
                          h3 = h2 @ [GetTopMoves 3 r3]
                      in case r3 of
                           Inl e \<Rightarrow> failure fen h3
                         | Inr None \<Rightarrow> failure fen h3
                         | Inr (Some top_moves) \<Rightarrow>
                             \<lparr>returned = (short_fen, Some best_move, True), calls = h3,
                              shown_evaluation = Some evaluation,
                              shown_top_moves =
                                map (\<lambda>md. (Move md, Centipawn md)) top_moves\<rparr>)))"

definition test_py_move_generation ::
  "engine \<Rightarrow> string \<Rightarrow> string \<Rightarrow> string \<Rightarrow> outcome" where
  "test_py_move_generation E fen short_fen full_fen =
     (let r0 = set_fen_position E [] full_fen;
          h0 = [SetFenPosition full_fen r0]
      in case r0 of
           Inl e \<Rightarrow> failure fen h0
         | Inr u \<Rightarrow>
             (let r1 = is_fen_valid E h0 full_fen;
                  h1 = h0 @ [IsFenValid full_fen r1]
              in case r1 of
                   Inl e \<Rightarrow> failure fen h1
                 | Inr ok1 \<Rightarrow>
                     if ok1 then test_py_best_move E h1 fen short_fen
                     else
                       (let simplified_fen = simplified_fen_of short_fen ''w'';
                            r2 = is_fen_valid E h1 simplified_fen;
                            h2 = h1 @ [IsFenValid simplified_fen r2]
                        in case r2 of
                             Inl e \<Rightarrow> failure fen h2
                           | Inr ok2 \<Rightarrow>
                               if ok2 then test_py_best_move E h2 fen short_fen
                               else
                                 (let black_fen = simplified_fen_of short_fen ''b'';
                                      r3 = is_fen_valid E h2 black_fen;
                                      h3 = h2 @ [IsFenValid black_fen r3]
                                  in case r3 of
                                       Inl e \<Rightarrow> failure fen h3
                                     | Inr ok3 \<Rightarrow>
                                         if ok3 then test_py_best_move E h3 fen short_fen
                                         else failure short_fen h3))))"

section \<open>Observations on a run, and engines for the worked examples\<close>

text \<open>Which events are a restart of the engine and a best-move request.\<close>

fun is_restart :: "event \<Rightarrow> bool" where
  "is_restart (InitStockfish ok) = True"
| "is_restart e = False"

fun is_best_move_request :: "event \<Rightarrow> bool" where
  "is_best_move_request (GetBestMove r) = True"
| "is_best_move_request e = False"

text \<open>
  A monitor for the order of validation and position setting: it walks the events with
  the set of position strings the validity check has accepted so far, and every
  \<open>SetFenPosition\<close> must find its string in that set.
\<close>

fun validated_before_set :: "string set \<Rightarrow> event list \<Rightarrow> bool" where
  "validated_before_set ok [] = True"
| "validated_before_set ok (IsFenValid f r # es) =
     validated_before_set (if r = Inr True then insert f ok else ok) es"
| "validated_before_set ok (SetFenPosition f r # es) =
     (f \<in> ok \<and> validated_before_set ok es)"
| "validated_before_set ok (e # es) = validated_before_set ok es"

text \<open>The position strings a run has set, and those the validity check has accepted.\<close>

fun set_positions :: "event list \<Rightarrow> string list" where
  "set_positions [] = []"
| "set_positions (SetFenPosition f r # es) = f # set_positions es"
| "set_positions (e # es) = set_positions es"

fun accepted_positions :: "event list \<Rightarrow> string list" where
  "accepted_positions [] = []"
| "accepted_positions (IsFenValid f r # es) =
     (if r = Inr True then f # accepted_positions es else accepted_positions es)"
| "accepted_positions (e # es) = accepted_positions es"

text \<open>
  An engine that answers without looking at the history: \<open>valid\<close> decides the validity
  check, the other answers are fixed; setting a position succeeds and a restart
  returns a session.
\<close>

definition fixed_engine ::
  "(string \<Rightarrow> py_exception + bool) \<Rightarrow> (py_exception + move_data list option)
     \<Rightarrow> (py_exception + string option) \<Rightarrow> (py_exception + evaluation) \<Rightarrow> engine" where
  "fixed_engine valid ranked best ev =
     \<lparr>is_fen_valid = (\<lambda>h f. valid f),
      set_fen_position = (\<lambda>h f. Inr ()),
      get_top_moves = (\<lambda>h n. ranked),
      get_best_move = (\<lambda>h. best),
      get_evaluation = (\<lambda>h. ev),
      init_stockfish = (\<lambda>h. True)\<rparr>"

text \<open>An engine whose every call raises and which cannot be constructed again.\<close>

definition dead_engine :: engine where
  "dead_engine =
     \<lparr>is_fen_valid = (\<lambda>h f. Inl EngineError),
      set_fen_position = (\<lambda>h f. Inl EngineError),
      get_top_moves = (\<lambda>h n. Inl EngineError),
      get_best_move = (\<lambda>h. Inl EngineError),
      get_evaluation = (\<lambda>h. Inl EngineError),
      init_stockfish = (\<lambda>h. False)\<rparr>"

text \<open>
  An engine that accepts every position and dies when the first ranked request
  arrives: from then on every call of a session raises, while the constructor still
  returns a session.
\<close>

definition crashing_engine :: engine where
  "crashing_engine =
     \<lparr>is_fen_valid = (\<lambda>h f. Inr True),
      set_fen_position =
        (\<lambda>h f. if list_ex is_restart h then Inl EngineError else Inr ()),
      get_top_moves = (\<lambda>h n. Inl EngineError),
      get_best_move = (\<lambda>h. Inl EngineError),
      get_evaluation = (\<lambda>h. Inl EngineError),
      init_stockfish = (\<lambda>h. True)\<rparr>"

section \<open>Facts about splitting and joining\<close>

lemma py_split_not_Nil: "py_split sep s \<noteq> []"
  by (induction s) (auto split: list.splits)

lemma py_join_Cons:
  "xs \<noteq> [] \<Longrightarrow> py_join sep (x # xs) = x @ sep @ py_join sep xs"
  by (cases xs) simp_all

lemma py_join_snoc:
  "xs \<noteq> [] \<Longrightarrow> py_join sep (xs @ [x]) = py_join sep xs @ sep @ x"
proof (induction xs)
  case Nil
  then show ?case by simp
next
  case (Cons y ys)
  show ?case
  proof (cases "ys = []")
    case True
    then show ?thesis by simp
  next
    case False
    with Cons.IH show ?thesis by (simp add: py_join_Cons)
  qed
qed

lemma py_join_split: "py_join [sep] (py_split sep s) = s"
proof (induction s)
  case Nil
  show ?case by simp
next
  case (Cons c cs)
  show ?case
  proof (cases "c = sep")
    case True
    with Cons.IH show ?thesis by (simp add: py_join_Cons py_split_not_Nil)
  next
    case False
    obtain r rs where split: "py_split sep cs = r # rs"
      using py_split_not_Nil [of sep cs] by (cases "py_split sep cs") auto
    have "py_join [sep] ((c # r) # rs) = c # py_join [sep] (r # rs)"
      by (cases rs) simp_all
    with False split Cons.IH show ?thesis by simp
  qed
qed

lemma rev_py_join:
  "rev (py_join sep xs) = py_join (rev sep) (map rev (rev xs))"
proof (induction xs)
  case Nil
  show ?case by simp
next
  case (Cons x xs)
  show ?case
  proof (cases "xs = []")
    case True
    then show ?thesis by simp
  next
    case False
    with Cons.IH show ?thesis by (simp add: py_join_Cons py_join_snoc)
  qed
qed

lemma flip_fen_is_reversal: "flip_fen (Some s) = Some (rev s)"
proof -
  have "py_join ''/'' (map rev (rev (py_split CHR ''/'' s)))
          = rev (py_join ''/'' (py_split CHR ''/'' s))"
    by (simp add: rev_py_join)
  then show ?thesis
    by (simp add: flip_fen_def py_join_split)
qed

lemma count_chars_filter: "count_chars p s = length (filter p s)"
  by (induction s) simp_all

lemma upper_and_alpha: "(isupper c \<and> isalpha c) = isupper c"
  by (auto simp: isalpha_def)

lemma lower_and_alpha: "(islower c \<and> isalpha c) = islower c"
  by (auto simp: isalpha_def)

section \<open>Facts about runs\<close>

lemma set_positions_append: "set_positions (a @ b) = set_positions a @ set_positions b"
  by (induction a rule: set_positions.induct) simp_all

lemma accepted_positions_append:
  "accepted_positions (a @ b) = accepted_positions a @ accepted_positions b"
  by (induction a rule: accepted_positions.induct) simp_all

lemma validated_before_set_append:
  "validated_before_set ok (a @ b) \<longleftrightarrow>
     validated_before_set ok a \<and> validated_before_set (ok \<union> set (accepted_positions a)) b"
proof (induction ok a rule: validated_before_set.induct)
  case (2 ok f r es)
  then show ?case by simp
qed simp_all

lemma validated_before_set_no_set:
  "set (set_positions t) \<subseteq> ok \<Longrightarrow> validated_before_set ok t"
  by (induction ok t rule: validated_before_set.induct) (simp_all add: subset_insertI2)

text \<open>
  Each part of the run only appends events. The lemmas bound what a part appends: how
  many events, how many restarts and best-move requests, and which positions it sets.
\<close>

lemma finish_query_calls:
  "\<exists>t. calls (finish_query E h fen s a tm) = h @ t \<and> length t \<le> 1
       \<and> filter is_restart t = [] \<and> filter is_best_move_request t = []
       \<and> set_positions t = []"
  by (auto simp: finish_query_def failure_def Let_def
        split: option.splits list.splits sum.splits)

lemma best_move_fallback_calls:
  "\<exists>t. calls (best_move_fallback E h fen s) = h @ t \<and> length t \<le> 1
       \<and> filter is_restart t = [] \<and> length (filter is_best_move_request t) \<le> 1
       \<and> set_positions t = []"
  by (auto simp: best_move_fallback_def failure_def Let_def
        split: option.splits list.splits sum.splits)

lemma query_top_moves_calls:
  "\<exists>t. calls (query_top_moves E h fen s full a) = h @ t \<and> length t \<le> 5
       \<and> length (filter is_restart t) \<le> 1 \<and> length (filter is_best_move_request t) \<le> 1
       \<and> set (set_positions t) \<subseteq> {full}"
proof (cases "get_top_moves E h 3")
  case (Inr tm)
  obtain t where "calls (finish_query E (h @ [GetTopMoves 3 (Inr tm)]) fen s a tm)
      = (h @ [GetTopMoves 3 (Inr tm)]) @ t" "length t \<le> 1" "filter is_restart t = []"
      "filter is_best_move_request t = []" "set_positions t = []"
    using finish_query_calls by blast
  with Inr show ?thesis by (simp add: query_top_moves_def Let_def)
next
  case (Inl e)
  let ?h1 = "h @ [GetTopMoves 3 (Inl e)]"
  show ?thesis
  proof (cases "init_stockfish E ?h1")
    case False
    with Inl show ?thesis by (simp add: query_top_moves_def Let_def failure_def)
  next
    case True
    let ?h2 = "?h1 @ [InitStockfish True]"
    show ?thesis
    proof (cases "set_fen_position E ?h2 full")
      case e2: (Inl e2)
      let ?h3 = "?h2 @ [SetFenPosition full (Inl e2)]"
      obtain t where "calls (best_move_fallback E ?h3 fen s) = ?h3 @ t" "length t \<le> 1"
        "filter is_restart t = []" "length (filter is_best_move_request t) \<le> 1"
        "set_positions t = []"
        using best_move_fallback_calls by blast
      with Inl True e2 show ?thesis by (simp add: query_top_moves_def Let_def)
    next
      case ok: (Inr u)
      let ?h3 = "?h2 @ [SetFenPosition full (Inr u)]"
      show ?thesis
      proof (cases "get_top_moves E ?h3 3")
        case e3: (Inl e3)
        let ?h4 = "?h3 @ [GetTopMoves 3 (Inl e3)]"
        obtain t where "calls (best_move_fallback E ?h4 fen s) = ?h4 @ t" "length t \<le> 1"
          "filter is_restart t = []" "length (filter is_best_move_request t) \<le> 1"
          "set_positions t = []"
          using best_move_fallback_calls by blast
        with Inl True ok e3 show ?thesis by (simp add: query_top_moves_def Let_def)
      next
        case tm: (Inr tm)
        let ?h4 = "?h3 @ [GetTopMoves 3 (Inr tm)]"
        obtain t where "calls (finish_query E ?h4 fen s a tm) = ?h4 @ t" "length t \<le> 1"
          "filter is_restart t = []" "filter is_best_move_request t = []"
          "set_positions t = []"
          using finish_query_calls by blast
        with Inl True ok tm show ?thesis by (simp add: query_top_moves_def Let_def)
      qed
    qed
  qed
qed

lemma set_position_and_query_calls:
  "\<exists>t. calls (set_position_and_query E h fen s full a) = h @ t \<and> length t \<le> 7
       \<and> length (filter is_restart t) \<le> 1 \<and> length (filter is_best_move_request t) \<le> 1
       \<and> set (set_positions t) \<subseteq> {full}"
proof (cases "set_fen_position E h full")
  case (Inl e)
  then show ?thesis by (simp add: set_position_and_query_def Let_def failure_def)
next
  case (Inr u)
  let ?h1 = "h @ [SetFenPosition full (Inr u)]"
  show ?thesis
  proof (cases "is_fen_valid E ?h1 start_position")
    case (Inl e)
    with Inr show ?thesis by (simp add: set_position_and_query_def Let_def failure_def)
  next
    case probe: (Inr ok)
    let ?h2 = "?h1 @ [IsFenValid start_position (Inr ok)]"
    show ?thesis
    proof (cases ok)
      case False
      with Inr probe show ?thesis by (simp add: set_position_and_query_def Let_def failure_def)
    next
      case True
      obtain t where "calls (query_top_moves E ?h2 fen s full a) = ?h2 @ t" "length t \<le> 5"
        "length (filter is_restart t) \<le> 1" "length (filter is_best_move_request t) \<le> 1"
        "set (set_positions t) \<subseteq> {full}"
        using query_top_moves_calls by blast
      with Inr probe True show ?thesis by (simp add: set_position_and_query_def Let_def)
    qed
  qed
qed

lemma repair_calls:
  "\<exists>t. snd (repair E h s a) = h @ t \<and> length t \<le> 3
       \<and> filter is_restart t = [] \<and> filter is_best_move_request t = []
       \<and> set_positions t = []
       \<and> (\<forall>full p. fst (repair E h s a) = Accepted full p
             \<longrightarrow> full \<in> set (accepted_positions t))"
  by (auto simp: repair_def Let_def split: sum.splits)

text \<open>
  The whole run of sicily.py, for every engine: at most ten engine calls, at most one
  restart, at most one best-move request, and no position is set that the validity
  check has not accepted before.
\<close>

lemma test_move_generation_calls:
  "length (calls (test_move_generation E fen s a)) \<le> 10
   \<and> length (filter is_restart (calls (test_move_generation E fen s a))) \<le> 1
   \<and> length (filter is_best_move_request (calls (test_move_generation E fen s a))) \<le> 1
   \<and> validated_before_set {} (calls (test_move_generation E fen s a))"
proof -
  obtain t where t: "snd (repair E [] s a) = t" "length t \<le> 3"
      "filter is_restart t = []" "filter is_best_move_request t = []" "set_positions t = []"
      "\<forall>full p. fst (repair E [] s a) = Accepted full p \<longrightarrow> full \<in> set (accepted_positions t)"
    using repair_calls [of E "[]" s a] by auto
  have vt: "validated_before_set {} t"
    using t(5) by (simp add: validated_before_set_no_set)
  show ?thesis
  proof (cases "fst (repair E [] s a)")
    case (RepairRaised e)
    with t vt show ?thesis
      by (cases "repair E [] s a") (simp add: test_move_generation_def failure_def)
  next
    case (RepairFailure p)
    with t vt show ?thesis
      by (cases "repair E [] s a") (simp add: test_move_generation_def failure_def)
  next
    case (Accepted full p)
    obtain u where u: "calls (set_position_and_query E t fen s full p) = t @ u" "length u \<le> 7"
        "length (filter is_restart u) \<le> 1" "length (filter is_best_move_request u) \<le> 1"
        "set (set_positions u) \<subseteq> {full}"
      using set_position_and_query_calls by blast
    have "full \<in> set (accepted_positions t)"
      using t(6) Accepted by simp
    with u(5) have "validated_before_set ({} \<union> set (accepted_positions t)) u"
      by (intro validated_before_set_no_set) auto
    with vt have "validated_before_set {} (t @ u)"
      by (simp add: validated_before_set_append)
    with Accepted t u show ?thesis
      by (cases "repair E [] s a") (simp add: test_move_generation_def)
  qed
qed

lemma display_placeholder:
  "display_evaluation active_player placeholder_evaluation = Inr placeholder_evaluation"
  by (simp add: display_evaluation_def placeholder_evaluation_def dict_get_def)

section \<open>Orientation detection\<close>

text \<open>
  Claim C4. The bottom rank-string is the last piece of the placement split at the
  slashes. With \<open>u\<close> its number of uppercase and \<open>l\<close> its number of lowercase letters,
  \<open>detect_board_orientation\<close> returns normal and White when \<open>u > l\<close>, flipped and Black
  when \<open>l > u\<close>, and on a tie flipped and Black exactly when the bottom rank contains
  one of the characters r, k, q. An argument that cannot be parsed (Python's
  \<^verbatim>\<open>None\<close>) gives the default normal and White; the function has no error result.
\<close>

theorem detect_board_orientation_cases:
  "(let b = last (py_split CHR ''/'' p);
        u = length (filter isupper b);
        l = length (filter islower b)
    in (u > l \<longrightarrow> detect_board_orientation (Some p) = (''normal'', ''w''))
     \<and> (l > u \<longrightarrow> detect_board_orientation (Some p) = (''flipped'', ''b''))
     \<and> (u = l \<and> (CHR ''r'' \<in> set b \<or> CHR ''k'' \<in> set b \<or> CHR ''q'' \<in> set b)
          \<longrightarrow> detect_board_orientation (Some p) = (''flipped'', ''b''))
     \<and> (u = l \<and> CHR ''r'' \<notin> set b \<and> CHR ''k'' \<notin> set b \<and> CHR ''q'' \<notin> set b
          \<longrightarrow> detect_board_orientation (Some p) = (''normal'', ''w'')))
   \<and> detect_board_orientation None = (''normal'', ''w'')"
  by (simp add: detect_board_orientation_def Let_def count_chars_filter
        upper_and_alpha lower_and_alpha)

text \<open>
  The four branches on boards: the starting position seen from White, the same board
  seen from Black, a tie broken by a black king, and an empty board.
\<close>

theorem detect_board_orientation_cases_witness:
  "detect_board_orientation (Some ''rnbqkbnr/pppppppp/8/8/8/8/PPPPPPPP/RNBQKBNR'')
     = (''normal'', ''w'')
   \<and> detect_board_orientation (Some ''RNBKQBNR/PPPPPPPP/8/8/8/8/pppppppp/rnbkqbnr'')
     = (''flipped'', ''b'')
   \<and> detect_board_orientation (Some ''8/8/8/8/8/8/8/4k2K'') = (''flipped'', ''b'')
   \<and> detect_board_orientation (Some ''8/8/8/8/8/8/8/8'') = (''normal'', ''w'')"
proof -
  have a: "detect_board_orientation (Some ''rnbqkbnr/pppppppp/8/8/8/8/PPPPPPPP/RNBQKBNR'')
             = (''normal'', ''w'')"
    using detect_board_orientation_cases [of "''rnbqkbnr/pppppppp/8/8/8/8/PPPPPPPP/RNBQKBNR''"]
    by (simp add: isupper_def islower_def)
  have b: "detect_board_orientation (Some ''RNBKQBNR/PPPPPPPP/8/8/8/8/pppppppp/rnbkqbnr'')
             = (''flipped'', ''b'')"
    using detect_board_orientation_cases [of "''RNBKQBNR/PPPPPPPP/8/8/8/8/pppppppp/rnbkqbnr''"]
    by (simp add: isupper_def islower_def)
  have c: "detect_board_orientation (Some ''8/8/8/8/8/8/8/4k2K'') = (''flipped'', ''b'')"
    using detect_board_orientation_cases [of "''8/8/8/8/8/8/8/4k2K''"]
    by (simp add: isupper_def islower_def)
  have d: "detect_board_orientation (Some ''8/8/8/8/8/8/8/8'') = (''normal'', ''w'')"
    using detect_board_orientation_cases [of "''8/8/8/8/8/8/8/8''"]
    by (simp add: isupper_def islower_def)
  from a b c d show ?thesis by simp
qed

section \<open>Rotation\<close>

text \<open>
  Claim C6. Rotating a placement twice gives the placement back. This holds for every
  argument of \<open>flip_fen\<close>, the well-formed placements of eight ranks among them: the
  rotation reverses the string as a whole.
\<close>

theorem flip_fen_involution: "flip_fen (flip_fen p) = p"
proof (cases p)
  case None
  then show ?thesis by (simp add: flip_fen_def)
next
  case (Some s)
  then show ?thesis by (simp add: flip_fen_is_reversal)
qed

section \<open>Square to pixel mapping\<close>

text \<open>
  Claim C7, as the spec states it, gives the pixel (350, 450) for the square e4 in the
  box (0, 0, 800, 800). The code returns another pixel.
\<close>

theorem square_e4_is_not_350_450:
  "square_to_coordinates ''e4'' (0, 0, 800, 800) \<noteq> Inr (Some (350, 450))"
  by (simp add: square_to_coordinates_def py_ord_def py_int_of_char_def py_int_of_float_def)

text \<open>
  Claim C7, amended. For the square e4 and the corners (0, 0, 800, 800) the mapping
  returns the pixel (450, 450); for any corners the pixel of e4 is the centre of the
  square in file 4 and rank 3, \<open>x = x0 + (4 + 0.5) * squareWidth\<close> and
  \<open>y = y1 - (3 + 0.5) * squareHeight\<close> with an eighth of the box as square size,
  truncated to integers.
\<close>

theorem square_e4_pixel:
  "square_to_coordinates ''e4'' (0, 0, 800, 800) = Inr (Some (450, 450))
   \<and> square_to_coordinates ''e4'' (x0, y0, x1, y1) =
       Inr (Some (py_int_of_float (rat_of_int x0 + (4 + 1 / 2) * (rat_of_int (x1 - x0) / 8)),
                  py_int_of_float (rat_of_int y1 - (3 + 1 / 2) * (rat_of_int (y1 - y0) / 8))))"
  by (simp add: square_to_coordinates_def py_ord_def py_int_of_char_def py_int_of_float_def)

text \<open>
  Claim C8, as the spec states it, gives a null result for a file or rank index outside
  0..7. The square i9 has file index 8 and rank index 8; the code returns a pixel
  outside the box for it.
\<close>

theorem square_i9_is_not_null:
  "square_to_coordinates ''i9'' (0, 0, 800, 800) = Inr (Some (850, - 50))"
  by (simp add: square_to_coordinates_def py_ord_def py_int_of_char_def py_int_of_float_def)

text \<open>
  Claim C8, amended. A square string whose length is not 2 yields the null result and
  no exception. A string of two characters whose second is a decimal digit is never
  rejected, whatever its file and rank index: it yields a pixel.
\<close>

theorem square_to_coordinates_guard:
  "(length square \<noteq> 2 \<longrightarrow> square_to_coordinates square corners = Inr None)
   \<and> (length square = 2 \<and> square ! 1 \<in> set ''0123456789''
        \<longrightarrow> (\<exists>xy. square_to_coordinates square corners = Inr (Some xy)))"
  by (cases corners)
     (simp add: square_to_coordinates_def py_int_of_char_def Let_def split: prod.splits)

theorem square_to_coordinates_guard_witness:
  "square_to_coordinates ''e2e4'' (0, 0, 800, 800) = Inr None
   \<and> square_to_coordinates [] (0, 0, 800, 800) = Inr None
   \<and> (\<exists>xy. square_to_coordinates ''z0'' (0, 0, 800, 800) = Inr (Some xy))"
proof -
  have a: "square_to_coordinates ''e2e4'' (0, 0, 800, 800) = Inr None"
    using square_to_coordinates_guard [of "''e2e4''" "(0, 0, 800, 800)"] by simp
  have b: "square_to_coordinates [] (0, 0, 800, 800) = Inr None"
    using square_to_coordinates_guard [of "[]" "(0, 0, 800, 800)"] by simp
  have c: "\<exists>xy. square_to_coordinates ''z0'' (0, 0, 800, 800) = Inr (Some xy)"
    using square_to_coordinates_guard [of "''z0''" "(0, 0, 800, 800)"] by simp
  from a b c show ?thesis by simp
qed

section \<open>The repair cascade\<close>

text \<open>
  Claim C1. For every placement and guessed colour the cascade asks the validity check
  about these strings, in this order, and returns the first that is accepted: the
  placement with the guessed colour and \<^verbatim>\<open>KQkq - 0 1\<close>, then with the guessed colour
  and \<^verbatim>\<open>- - 0 1\<close>, then with the opposite colour and \<^verbatim>\<open>- - 0 1\<close>. When all three are
  rejected the result is the failure that carries the bare placement, and the events
  added are exactly the three validity checks. The engine may depend on the history
  \<open>h\<close>; the answers named are the ones it gives at the point of each call.
\<close>

theorem repair_cascade:
  "(let c1 = short_fen @ '' '' @ active_player @ '' KQkq - 0 1'';
        c2 = short_fen @ '' '' @ active_player @ '' - - 0 1'';
        opposite = (if active_player = ''w'' then ''b'' else ''w'');
        c3 = short_fen @ '' '' @ opposite @ '' - - 0 1'';
        h1 = h @ [IsFenValid c1 (Inr False)];
        h2 = h1 @ [IsFenValid c2 (Inr False)]
    in (is_fen_valid E h c1 = Inr True
          \<longrightarrow> repair E h short_fen active_player
                = (Accepted c1 active_player, h @ [IsFenValid c1 (Inr True)]))
     \<and> (is_fen_valid E h c1 = Inr False \<and> is_fen_valid E h1 c2 = Inr True
          \<longrightarrow> repair E h short_fen active_player
                = (Accepted c2 active_player, h1 @ [IsFenValid c2 (Inr True)]))
     \<and> (is_fen_valid E h c1 = Inr False \<and> is_fen_valid E h1 c2 = Inr False
          \<and> is_fen_valid E h2 c3 = Inr True
          \<longrightarrow> repair E h short_fen active_player
                = (Accepted c3 opposite, h2 @ [IsFenValid c3 (Inr True)]))
     \<and> (is_fen_valid E h c1 = Inr False \<and> is_fen_valid E h1 c2 = Inr False
          \<and> is_fen_valid E h2 c3 = Inr False
          \<longrightarrow> repair E h short_fen active_player
                = (RepairFailure short_fen,
                   h @ [IsFenValid c1 (Inr False), IsFenValid c2 (Inr False),
                        IsFenValid c3 (Inr False)])))"
  by (simp add: repair_def full_fen_of_def simplified_fen_of_def Let_def)

text \<open>
  The four outcomes on the empty board: an engine that accepts everything, one that
  accepts only the string without castling rights, one that accepts only the string
  for the opposite colour, and one that rejects everything.
\<close>

theorem repair_cascade_witness:
  "repair (fixed_engine (\<lambda>f. Inr True) (Inr None) (Inr None) (Inl EngineError))
       [] ''8/8/8/8/8/8/8/8'' ''w''
     = (Accepted ''8/8/8/8/8/8/8/8 w KQkq - 0 1'' ''w'',
        [IsFenValid ''8/8/8/8/8/8/8/8 w KQkq - 0 1'' (Inr True)])
   \<and> repair (fixed_engine (\<lambda>f. Inr (f = ''8/8/8/8/8/8/8/8 w - - 0 1''))
               (Inr None) (Inr None) (Inl EngineError))
       [] ''8/8/8/8/8/8/8/8'' ''w''
     = (Accepted ''8/8/8/8/8/8/8/8 w - - 0 1'' ''w'',
        [IsFenValid ''8/8/8/8/8/8/8/8 w KQkq - 0 1'' (Inr False),
         IsFenValid ''8/8/8/8/8/8/8/8 w - - 0 1'' (Inr True)])
   \<and> repair (fixed_engine (\<lambda>f. Inr (f = ''8/8/8/8/8/8/8/8 b - - 0 1''))
               (Inr None) (Inr None) (Inl EngineError))
       [] ''8/8/8/8/8/8/8/8'' ''w''
     = (Accepted ''8/8/8/8/8/8/8/8 b - - 0 1'' ''b'',
        [IsFenValid ''8/8/8/8/8/8/8/8 w KQkq - 0 1'' (Inr False),
         IsFenValid ''8/8/8/8/8/8/8/8 w - - 0 1'' (Inr False),
         IsFenValid ''8/8/8/8/8/8/8/8 b - - 0 1'' (Inr True)])
   \<and> repair (fixed_engine (\<lambda>f. Inr False) (Inr None) (Inr None) (Inl EngineError))
       [] ''8/8/8/8/8/8/8/8'' ''b''
     = (RepairFailure ''8/8/8/8/8/8/8/8'',
        [IsFenValid ''8/8/8/8/8/8/8/8 b KQkq - 0 1'' (Inr False),
         IsFenValid ''8/8/8/8/8/8/8/8 b - - 0 1'' (Inr False),
         IsFenValid ''8/8/8/8/8/8/8/8 w - - 0 1'' (Inr False)])"
proof -
  let ?p = "''8/8/8/8/8/8/8/8''"
  let ?all = "fixed_engine (\<lambda>f. Inr True) (Inr None) (Inr None) (Inl EngineError)"
  let ?second = "fixed_engine (\<lambda>f. Inr (f = ''8/8/8/8/8/8/8/8 w - - 0 1''))
                   (Inr None) (Inr None) (Inl EngineError)"
  let ?third = "fixed_engine (\<lambda>f. Inr (f = ''8/8/8/8/8/8/8/8 b - - 0 1''))
                  (Inr None) (Inr None) (Inl EngineError)"
  let ?none = "fixed_engine (\<lambda>f. Inr False) (Inr None) (Inr None) (Inl EngineError)"
  have a: "repair ?all [] ?p ''w''
     = (Accepted ''8/8/8/8/8/8/8/8 w KQkq - 0 1'' ''w'',
        [IsFenValid ''8/8/8/8/8/8/8/8 w KQkq - 0 1'' (Inr True)])"
    using repair_cascade [of ?p "''w''" "[]" ?all]
    by (simp add: fixed_engine_def Let_def)
  have b: "repair ?second [] ?p ''w''
     = (Accepted ''8/8/8/8/8/8/8/8 w - - 0 1'' ''w'',
        [IsFenValid ''8/8/8/8/8/8/8/8 w KQkq - 0 1'' (Inr False),
         IsFenValid ''8/8/8/8/8/8/8/8 w - - 0 1'' (Inr True)])"
    using repair_cascade [of ?p "''w''" "[]" ?second]
    by (simp add: fixed_engine_def Let_def)
  have c: "repair ?third [] ?p ''w''
     = (Accepted ''8/8/8/8/8/8/8/8 b - - 0 1'' ''b'',
        [IsFenValid ''8/8/8/8/8/8/8/8 w KQkq - 0 1'' (Inr False),
         IsFenValid ''8/8/8/8/8/8/8/8 w - - 0 1'' (Inr False),
         IsFenValid ''8/8/8/8/8/8/8/8 b - - 0 1'' (Inr True)])"
    using repair_cascade [of ?p "''w''" "[]" ?third]
    by (simp add: fixed_engine_def Let_def)
  have d: "repair ?none [] ?p ''b''
     = (RepairFailure ''8/8/8/8/8/8/8/8'',
        [IsFenValid ''8/8/8/8/8/8/8/8 b KQkq - 0 1'' (Inr False),
         IsFenValid ''8/8/8/8/8/8/8/8 b - - 0 1'' (Inr False),
         IsFenValid ''8/8/8/8/8/8/8/8 w - - 0 1'' (Inr False)])"
    using repair_cascade [of ?p "''b''" "[]" ?none]
    by (simp add: fixed_engine_def Let_def)
  from a b c d show ?thesis by simp
qed

section \<open>Validation before position setting\<close>

text \<open>
  Claim C2 holds for sicily.py (the last conjunct of \<open>test_move_generation_calls\<close>)
  and fails for test.py, which sets the position in its first engine call. With the
  sample position of the script and an engine that rejects every string, test.py sets
  the unvalidated string, asks three times for validity and returns; the monitor
  rejects the run.
\<close>

theorem test_py_sets_position_before_validation:
  "calls (test_py_move_generation
            (fixed_engine (\<lambda>f. Inr False) (Inr None) (Inr None) (Inl EngineError))
            ''rnbqkbnr/pppppppp/8/8/4P3/8/PPPP1PPP/RNBQKBNR''
            ''rnbqkbnr/pppppppp/8/8/4P3/8/PPPP1PPP/RNBQKBNR''
            ''rnbqkbnr/pppppppp/8/8/4P3/8/PPPP1PPP/RNBQKBNR w KQkq - 0 1'')
     = [SetFenPosition ''rnbqkbnr/pppppppp/8/8/4P3/8/PPPP1PPP/RNBQKBNR w KQkq - 0 1'' (Inr ()),
        IsFenValid ''rnbqkbnr/pppppppp/8/8/4P3/8/PPPP1PPP/RNBQKBNR w KQkq - 0 1'' (Inr False),
        IsFenValid ''rnbqkbnr/pppppppp/8/8/4P3/8/PPPP1PPP/RNBQKBNR w - - 0 1'' (Inr False),
        IsFenValid ''rnbqkbnr/pppppppp/8/8/4P3/8/PPPP1PPP/RNBQKBNR b - - 0 1'' (Inr False)]
   \<and> \<not> validated_before_set {}
         (calls (test_py_move_generation
            (fixed_engine (\<lambda>f. Inr False) (Inr None) (Inr None) (Inl EngineError))
            ''rnbqkbnr/pppppppp/8/8/4P3/8/PPPP1PPP/RNBQKBNR''
            ''rnbqkbnr/pppppppp/8/8/4P3/8/PPPP1PPP/RNBQKBNR''
            ''rnbqkbnr/pppppppp/8/8/4P3/8/PPPP1PPP/RNBQKBNR w KQkq - 0 1''))"
  by (simp add: test_py_move_generation_def fixed_engine_def simplified_fen_of_def
        failure_def Let_def)

text \<open>The same for every engine and every input: the first event is the position set.\<close>

lemma test_py_never_validates_first:
  "\<not> validated_before_set {} (calls (test_py_move_generation E fen short_fen full_fen))"
proof -
  have "\<exists>t. calls (test_py_best_move E h fen short_fen) = h @ t" for h
    by (auto simp: test_py_best_move_def failure_def Let_def
          split: sum.splits option.splits)
  then have "\<exists>r t. calls (test_py_move_generation E fen short_fen full_fen)
                = SetFenPosition full_fen r # t"
    unfolding test_py_move_generation_def failure_def Let_def
    by (auto split: sum.splits) (metis append_Cons)+
  then show ?thesis by auto
qed

section \<open>Restart and fallback\<close>

text \<open>
  Claim C3, as the spec states it, has one restart and one best-move request when every
  engine call raises. With an engine whose every call raises, the first call of the
  run (the validity check of the position) raises into the outer handler: the run ends
  after that one call, with no restart and no best-move request.
\<close>

theorem dead_engine_no_restart:
  "calls (test_move_generation dead_engine ''8/8/8/8/8/8/8/8'' ''8/8/8/8/8/8/8/8'' ''w'')
     = [IsFenValid ''8/8/8/8/8/8/8/8 w KQkq - 0 1'' (Inl EngineError)]
   \<and> filter is_restart
       (calls (test_move_generation dead_engine ''8/8/8/8/8/8/8/8'' ''8/8/8/8/8/8/8/8'' ''w''))
     = []
   \<and> filter is_best_move_request
       (calls (test_move_generation dead_engine ''8/8/8/8/8/8/8/8'' ''8/8/8/8/8/8/8/8'' ''w''))
     = []
   \<and> returned (test_move_generation dead_engine ''8/8/8/8/8/8/8/8'' ''8/8/8/8/8/8/8/8'' ''w'')
     = (''8/8/8/8/8/8/8/8'', None, False)"
  by (simp add: test_move_generation_def repair_def dead_engine_def full_fen_of_def
        failure_def Let_def)

text \<open>
  Claim C3, amended. The ladder starts at the ranked request, after validation and
  probe have succeeded. When the ranked request raises, one restart follows. When the
  new session is returned and setting the position raises, or setting succeeds and the
  repeated ranked request raises, one best-move request follows; when that raises too
  the run fails, and the events added are exactly the ones listed. In every run, for
  every engine, there are at most ten engine calls, at most one restart and at most one
  best-move request; the run is a function of the engine's answers.
\<close>

theorem restart_ladder:
  "(let h1 = h @ [GetTopMoves 3 (Inl e1)];
        h2 = h1 @ [InitStockfish True];
        h3 = h2 @ [SetFenPosition full_fen (Inl e2)];
        h3' = h2 @ [SetFenPosition full_fen (Inr ())];
        h4' = h3' @ [GetTopMoves 3 (Inl e2)]
    in (get_top_moves E h 3 = Inl e1 \<and> init_stockfish E h1
          \<and> set_fen_position E h2 full_fen = Inl e2 \<and> get_best_move E h3 = Inl e3
          \<longrightarrow> query_top_moves E h fen short_fen full_fen active_player
                = failure fen (h @ [GetTopMoves 3 (Inl e1), InitStockfish True,
                                    SetFenPosition full_fen (Inl e2), GetBestMove (Inl e3)]))
     \<and> (get_top_moves E h 3 = Inl e1 \<and> init_stockfish E h1
          \<and> set_fen_position E h2 full_fen = Inr () \<and> get_top_moves E h3' 3 = Inl e2
          \<and> get_best_move E h4' = Inl e3
          \<longrightarrow> query_top_moves E h fen short_fen full_fen active_player
                = failure fen (h @ [GetTopMoves 3 (Inl e1), InitStockfish True,
                                    SetFenPosition full_fen (Inr ()), GetTopMoves 3 (Inl e2),
                                    GetBestMove (Inl e3)])))
   \<and> length (calls (test_move_generation E fen short_fen active_player)) \<le> 10
   \<and> length (filter is_restart (calls (test_move_generation E fen short_fen active_player))) \<le> 1
   \<and> length (filter is_best_move_request
               (calls (test_move_generation E fen short_fen active_player))) \<le> 1"
proof -
  have ladder: "?thesis \<longleftrightarrow>
      length (calls (test_move_generation E fen short_fen active_player)) \<le> 10
      \<and> length (filter is_restart (calls (test_move_generation E fen short_fen active_player))) \<le> 1
      \<and> length (filter is_best_move_request
               (calls (test_move_generation E fen short_fen active_player))) \<le> 1"
    by (simp add: query_top_moves_def best_move_fallback_def failure_def Let_def)
  show ?thesis
    unfolding ladder using test_move_generation_calls [of E fen short_fen active_player]
    by simp
qed

text \<open>
  The ladder on an engine that dies at the first ranked request, from the start of the
  run: seven engine calls, one restart, one best-move request, failure; and on an
  engine whose fresh session takes the position but raises on every request.
\<close>

theorem restart_ladder_witness:
  "query_top_moves crashing_engine [] ''8/8/8/8/8/8/8/8'' ''8/8/8/8/8/8/8/8''
       ''8/8/8/8/8/8/8/8 w KQkq - 0 1'' ''w''
     = failure ''8/8/8/8/8/8/8/8''
         [GetTopMoves 3 (Inl EngineError), InitStockfish True,
          SetFenPosition ''8/8/8/8/8/8/8/8 w KQkq - 0 1'' (Inl EngineError),
          GetBestMove (Inl EngineError)]
   \<and> query_top_moves
       (fixed_engine (\<lambda>f. Inr True) (Inl EngineError) (Inl EngineError) (Inl EngineError))
       [] ''8/8/8/8/8/8/8/8'' ''8/8/8/8/8/8/8/8'' ''8/8/8/8/8/8/8/8 w KQkq - 0 1'' ''w''
     = failure ''8/8/8/8/8/8/8/8''
         [GetTopMoves 3 (Inl EngineError), InitStockfish True,
          SetFenPosition ''8/8/8/8/8/8/8/8 w KQkq - 0 1'' (Inr ()),
          GetTopMoves 3 (Inl EngineError), GetBestMove (Inl EngineError)]
   \<and> length (calls (test_move_generation crashing_engine
                      ''8/8/8/8/8/8/8/8'' ''8/8/8/8/8/8/8/8'' ''w'')) \<le> 10"
proof -
  let ?p = "''8/8/8/8/8/8/8/8''"
  let ?f = "''8/8/8/8/8/8/8/8 w KQkq - 0 1''"
  let ?E = "fixed_engine (\<lambda>f. Inr True) (Inl EngineError) (Inl EngineError) (Inl EngineError)"
  have a: "query_top_moves crashing_engine [] ?p ?p ?f ''w''
     = failure ?p [GetTopMoves 3 (Inl EngineError), InitStockfish True,
          SetFenPosition ?f (Inl EngineError), GetBestMove (Inl EngineError)]"
    using restart_ladder [where h = "[]" and ?e1.0 = EngineError and ?e2.0 = EngineError
        and ?e3.0 = EngineError and full_fen = ?f and E = crashing_engine and fen = ?p
        and short_fen = ?p and active_player = "''w''"]
    by (simp add: crashing_engine_def Let_def)
  have b: "query_top_moves ?E [] ?p ?p ?f ''w''
     = failure ?p [GetTopMoves 3 (Inl EngineError), InitStockfish True,
          SetFenPosition ?f (Inr ()), GetTopMoves 3 (Inl EngineError),
          GetBestMove (Inl EngineError)]"
    using restart_ladder [where h = "[]" and ?e1.0 = EngineError and ?e2.0 = EngineError
        and ?e3.0 = EngineError and full_fen = ?f and E = ?E and fen = ?p
        and short_fen = ?p and active_player = "''w''"]
    by (simp add: fixed_engine_def Let_def)
  have c: "length (calls (test_move_generation crashing_engine ?p ?p ''w'')) \<le> 10"
    using restart_ladder [where h = "[]" and ?e1.0 = EngineError and ?e2.0 = EngineError
        and ?e3.0 = EngineError and full_fen = ?f and E = crashing_engine and fen = ?p
        and short_fen = ?p and active_player = "''w''"]
    by simp
  from a b c show ?thesis by simp
qed

section \<open>Evaluation display\<close>

text \<open>
  Claim C5, as the spec states it, has the mate distance of every ranked move negated
  for Black. A ranked move that is a mate has no centipawn score and a mate distance;
  the line printed for it is the same for Black and for White, and the mate distance
  is not negated.
\<close>

theorem ranked_mate_is_not_negated:
  "top_move_line ''b'' \<lparr>Move = ''d8h4'', Centipawn = None, Mate = Some 1\<rparr> = (''d8h4'', None)
   \<and> top_move_line ''b'' \<lparr>Move = ''d8h4'', Centipawn = None, Mate = Some 1\<rparr>
       = top_move_line ''w'' \<lparr>Move = ''d8h4'', Centipawn = None, Mate = Some 1\<rparr>"
  by (simp add: top_move_line_def)

text \<open>
  Claim C5, amended. For Black the numeric score of the single evaluation is negated,
  for the type \<^verbatim>\<open>cp\<close> and for the type \<^verbatim>\<open>mate\<close>, and the centipawn score of every
  ranked move is negated (a missing score stays missing); the mate distance of a ranked
  move is not read, so it is neither shown nor negated. For any other colour the
  evaluation and the ranked scores pass through unchanged. An evaluation whose type is
  neither \<^verbatim>\<open>cp\<close> nor \<^verbatim>\<open>mate\<close>, or whose score is \<^verbatim>\<open>None\<close>, or which is not a dict,
  passes through unchanged for every colour.
\<close>

theorem evaluation_display_rules:
  "((d ''type'' = Some (PyStr ''cp'') \<or> d ''type'' = Some (PyStr ''mate''))
      \<and> d ''value'' = Some (PyInt n)
      \<longrightarrow> display_evaluation ''b'' (EvalDict d) = Inr (EvalDict (d(''value'' \<mapsto> PyInt (- n)))))
   \<and> top_move_line ''b'' md = (Move md, map_option uminus (Centipawn md))
   \<and> top_move_line active_player (md\<lparr>Mate := m\<rparr>) = top_move_line active_player md
   \<and> (active_player \<noteq> ''b''
        \<longrightarrow> display_evaluation active_player ev = Inr ev
          \<and> top_move_line active_player md = (Move md, Centipawn md))
   \<and> ((dict_get d ''type'' \<noteq> PyStr ''cp'' \<and> dict_get d ''type'' \<noteq> PyStr ''mate'')
        \<or> dict_get d ''value'' = PyNone
        \<longrightarrow> display_evaluation active_player (EvalDict d) = Inr (EvalDict d))
   \<and> display_evaluation active_player (EvalOther v) = Inr (EvalOther v)"
proof -
  have a: "(d ''type'' = Some (PyStr ''cp'') \<or> d ''type'' = Some (PyStr ''mate''))
      \<and> d ''value'' = Some (PyInt n)
      \<longrightarrow> display_evaluation ''b'' (EvalDict d) = Inr (EvalDict (d(''value'' \<mapsto> PyInt (- n))))"
    by (auto simp: display_evaluation_def dict_get_def py_neg_def)
  have b: "top_move_line ''b'' md = (Move md, map_option uminus (Centipawn md))"
    by (cases "Centipawn md") (simp_all add: top_move_line_def Let_def)
  have c: "top_move_line active_player (md\<lparr>Mate := m\<rparr>) = top_move_line active_player md"
    by (simp add: top_move_line_def Let_def)
  have d: "active_player \<noteq> ''b''
        \<longrightarrow> display_evaluation active_player ev = Inr ev
          \<and> top_move_line active_player md = (Move md, Centipawn md)"
    by (cases ev) (simp_all add: display_evaluation_def top_move_line_def Let_def)
  have e: "(dict_get d ''type'' \<noteq> PyStr ''cp'' \<and> dict_get d ''type'' \<noteq> PyStr ''mate'')
        \<or> dict_get d ''value'' = PyNone
        \<longrightarrow> display_evaluation active_player (EvalDict d) = Inr (EvalDict d)"
    by (auto simp: display_evaluation_def)
  have f: "display_evaluation active_player (EvalOther v) = Inr (EvalOther v)"
    by (simp add: display_evaluation_def)
  from a b c d e f show ?thesis by blast
qed

text \<open>
  A centipawn evaluation and a mate evaluation for Black, a centipawn evaluation for
  White, and the placeholder shape for Black.
\<close>

theorem evaluation_display_rules_witness:
  "display_evaluation ''b'' (EvalDict [''type'' \<mapsto> PyStr ''cp'', ''value'' \<mapsto> PyInt 35])
     = Inr (EvalDict ([''type'' \<mapsto> PyStr ''cp'', ''value'' \<mapsto> PyInt 35]
                        (''value'' \<mapsto> PyInt (- 35))))
   \<and> display_evaluation ''b'' (EvalDict [''type'' \<mapsto> PyStr ''mate'', ''value'' \<mapsto> PyInt (- 2)])
     = Inr (EvalDict ([''type'' \<mapsto> PyStr ''mate'', ''value'' \<mapsto> PyInt (- 2)]
                        (''value'' \<mapsto> PyInt 2)))
   \<and> display_evaluation ''w'' (EvalDict [''type'' \<mapsto> PyStr ''cp'', ''value'' \<mapsto> PyInt 35])
     = Inr (EvalDict [''type'' \<mapsto> PyStr ''cp'', ''value'' \<mapsto> PyInt 35])
   \<and> top_move_line ''w'' \<lparr>Move = ''e2e4'', Centipawn = Some 35, Mate = None\<rparr>
     = (''e2e4'', Some 35)
   \<and> display_evaluation ''b''
       (EvalDict [''type'' \<mapsto> PyStr ''unknown'', ''value'' \<mapsto> PyStr ''N/A''])
     = Inr (EvalDict [''type'' \<mapsto> PyStr ''unknown'', ''value'' \<mapsto> PyStr ''N/A''])"
proof -
  let ?cp = "[''type'' \<mapsto> PyStr ''cp'', ''value'' \<mapsto> PyInt 35]"
  let ?mate = "[''type'' \<mapsto> PyStr ''mate'', ''value'' \<mapsto> PyInt (- 2)]"
  let ?unknown = "[''type'' \<mapsto> PyStr ''unknown'', ''value'' \<mapsto> PyStr ''N/A'']"
  let ?md = "\<lparr>Move = ''e2e4'', Centipawn = Some 35, Mate = None\<rparr>"
  have a: "display_evaluation ''b'' (EvalDict ?cp)
             = Inr (EvalDict (?cp(''value'' \<mapsto> PyInt (- 35))))"
    using evaluation_display_rules [where d = ?cp and n = 35] by simp
  have b: "display_evaluation ''b'' (EvalDict ?mate)
             = Inr (EvalDict (?mate(''value'' \<mapsto> PyInt 2)))"
    using evaluation_display_rules [where d = ?mate and n = "- 2"] by simp
  have c: "display_evaluation ''w'' (EvalDict ?cp) = Inr (EvalDict ?cp)
           \<and> top_move_line ''w'' ?md = (''e2e4'', Some 35)"
    using evaluation_display_rules [where active_player = "''w''" and ev = "EvalDict ?cp"
        and md = ?md]
    by simp
  have d: "display_evaluation ''b'' (EvalDict ?unknown) = Inr (EvalDict ?unknown)"
    using evaluation_display_rules [where active_player = "''b''" and d = ?unknown]
    by (simp add: dict_get_def)
  from a b c d show ?thesis by simp
qed

section \<open>Empty ranked list and failing evaluation\<close>

text \<open>
  Claim C9. When the ranked request returns \<^verbatim>\<open>None\<close> or an empty list, the run fails at
  once: the only event added is that request, so no restart and no best-move request
  is made, and the handler's triple \<^verbatim>\<open>(fen, None, False)\<close> is returned.
\<close>

theorem empty_ranked_list_fails_at_once:
  "(get_top_moves E h 3 = Inr None
      \<longrightarrow> query_top_moves E h fen short_fen full_fen active_player
            = failure fen (h @ [GetTopMoves 3 (Inr None)]))
   \<and> (get_top_moves E h 3 = Inr (Some [])
      \<longrightarrow> query_top_moves E h fen short_fen full_fen active_player
            = failure fen (h @ [GetTopMoves 3 (Inr (Some []))]))
   \<and> (get_top_moves E h 3 = Inr None \<or> get_top_moves E h 3 = Inr (Some [])
      \<longrightarrow> returned (query_top_moves E h fen short_fen full_fen active_player)
            = (fen, None, False)
        \<and> filter is_restart (calls (query_top_moves E h fen short_fen full_fen active_player))
            = filter is_restart h
        \<and> filter is_best_move_request
            (calls (query_top_moves E h fen short_fen full_fen active_player))
            = filter is_best_move_request h)"
  by (auto simp: query_top_moves_def finish_query_def failure_def Let_def)

theorem empty_ranked_list_fails_at_once_witness:
  "query_top_moves (fixed_engine (\<lambda>f. Inr True) (Inr None) (Inr (Some ''e2e4'')) (Inl EngineError))
       [] ''8/8/8/8/8/8/8/8'' ''8/8/8/8/8/8/8/8'' ''8/8/8/8/8/8/8/8 w KQkq - 0 1'' ''w''
     = failure ''8/8/8/8/8/8/8/8'' [GetTopMoves 3 (Inr None)]
   \<and> query_top_moves
       (fixed_engine (\<lambda>f. Inr True) (Inr (Some [])) (Inr (Some ''e2e4'')) (Inl EngineError))
       [] ''8/8/8/8/8/8/8/8'' ''8/8/8/8/8/8/8/8'' ''8/8/8/8/8/8/8/8 w KQkq - 0 1'' ''w''
     = failure ''8/8/8/8/8/8/8/8'' [GetTopMoves 3 (Inr (Some []))]
   \<and> filter is_restart
       (calls (query_top_moves
          (fixed_engine (\<lambda>f. Inr True) (Inr (Some [])) (Inr (Some ''e2e4'')) (Inl EngineError))
          [] ''8/8/8/8/8/8/8/8'' ''8/8/8/8/8/8/8/8'' ''8/8/8/8/8/8/8/8 w KQkq - 0 1'' ''w''))
     = []"
proof -
  let ?p = "''8/8/8/8/8/8/8/8''"
  let ?f = "''8/8/8/8/8/8/8/8 w KQkq - 0 1''"
  let ?N = "fixed_engine (\<lambda>f. Inr True) (Inr None) (Inr (Some ''e2e4'')) (Inl EngineError)"
  let ?E = "fixed_engine (\<lambda>f. Inr True) (Inr (Some [])) (Inr (Some ''e2e4'')) (Inl EngineError)"
  have a: "query_top_moves ?N [] ?p ?p ?f ''w'' = failure ?p [GetTopMoves 3 (Inr None)]"
    using empty_ranked_list_fails_at_once [where E = ?N and h = "[]" and fen = ?p
        and short_fen = ?p and full_fen = ?f and active_player = "''w''"]
    by (simp add: fixed_engine_def)
  have b: "query_top_moves ?E [] ?p ?p ?f ''w'' = failure ?p [GetTopMoves 3 (Inr (Some []))]"
    using empty_ranked_list_fails_at_once [where E = ?E and h = "[]" and fen = ?p
        and short_fen = ?p and full_fen = ?f and active_player = "''w''"]
    by (simp add: fixed_engine_def)
  have c: "filter is_restart (calls (query_top_moves ?E [] ?p ?p ?f ''w'')) = []"
    using empty_ranked_list_fails_at_once [where E = ?E and h = "[]" and fen = ?p
        and short_fen = ?p and full_fen = ?f and active_player = "''w''"]
    by (simp add: fixed_engine_def failure_def)
  from a b c show ?thesis by simp
qed

text \<open>
  Claim C10. When the ranked request has returned a non-empty list and
  \<open>get_evaluation\<close> raises, the run still succeeds with the first ranked move as best
  move; the evaluation shown is the placeholder of type \<^verbatim>\<open>unknown\<close> and value
  \<^verbatim>\<open>N/A\<close>, for either colour. The first conjunct is the part of the code both the
  first and the repeated ranked request lead to, the second the run from the first
  ranked request.
\<close>

theorem evaluation_failure_gives_placeholder:
  "(get_evaluation E h = Inl e
      \<longrightarrow> finish_query E h fen short_fen active_player (Some (m # ms))
            = \<lparr>returned = (short_fen, Some (Move m), True),
               calls = h @ [GetEvaluation (Inl e)],
               shown_evaluation =
                 Some (EvalDict [''type'' \<mapsto> PyStr ''unknown'', ''value'' \<mapsto> PyStr ''N/A'']),
               shown_top_moves = map (top_move_line active_player) (m # ms)\<rparr>)
   \<and> (get_top_moves E h 3 = Inr (Some (m # ms))
        \<and> get_evaluation E (h @ [GetTopMoves 3 (Inr (Some (m # ms)))]) = Inl e
      \<longrightarrow> query_top_moves E h fen short_fen full_fen active_player
            = \<lparr>returned = (short_fen, Some (Move m), True),
               calls = h @ [GetTopMoves 3 (Inr (Some (m # ms))), GetEvaluation (Inl e)],
               shown_evaluation =
                 Some (EvalDict [''type'' \<mapsto> PyStr ''unknown'', ''value'' \<mapsto> PyStr ''N/A'']),
               shown_top_moves = map (top_move_line active_player) (m # ms)\<rparr>)"
proof -
  have shown: "display_evaluation active_player
        (EvalDict [''type'' \<mapsto> PyStr ''unknown'', ''value'' \<mapsto> PyStr ''N/A''])
      = Inr (EvalDict [''type'' \<mapsto> PyStr ''unknown'', ''value'' \<mapsto> PyStr ''N/A''])"
    using display_placeholder [of active_player] by (simp add: placeholder_evaluation_def)
  show ?thesis
    by (simp add: query_top_moves_def finish_query_def Let_def placeholder_evaluation_def
          shown)
qed

theorem evaluation_failure_gives_placeholder_witness:
  "query_top_moves
       (fixed_engine (\<lambda>f. Inr True)
          (Inr (Some [\<lparr>Move = ''e7e5'', Centipawn = Some 35, Mate = None\<rparr>,
                      \<lparr>Move = ''d8h4'', Centipawn = None, Mate = Some 1\<rparr>]))
          (Inr None) (Inl EngineError))
       [] ''8/8/8/8/8/8/8/8'' ''8/8/8/8/8/8/8/8'' ''8/8/8/8/8/8/8/8 b KQkq - 0 1'' ''b''
     = \<lparr>returned = (''8/8/8/8/8/8/8/8'', Some ''e7e5'', True),
        calls = [GetTopMoves 3
                   (Inr (Some [\<lparr>Move = ''e7e5'', Centipawn = Some 35, Mate = None\<rparr>,
                               \<lparr>Move = ''d8h4'', Centipawn = None, Mate = Some 1\<rparr>])),
                 GetEvaluation (Inl EngineError)],
        shown_evaluation =
          Some (EvalDict [''type'' \<mapsto> PyStr ''unknown'', ''value'' \<mapsto> PyStr ''N/A'']),
        shown_top_moves = [(''e7e5'', Some (- 35)), (''d8h4'', None)]\<rparr>"
proof -
  let ?m = "\<lparr>Move = ''e7e5'', Centipawn = Some 35, Mate = None\<rparr>"
  let ?ms = "[\<lparr>Move = ''d8h4'', Centipawn = None, Mate = Some 1\<rparr>]"
  let ?E = "fixed_engine (\<lambda>f. Inr True) (Inr (Some (?m # ?ms))) (Inr None) (Inl EngineError)"
  show ?thesis
    using evaluation_failure_gives_placeholder [where E = ?E and h = "[]" and m = ?m
        and ms = ?ms and e = EngineError and fen = "''8/8/8/8/8/8/8/8''"
        and short_fen = "''8/8/8/8/8/8/8/8''"
        and full_fen = "''8/8/8/8/8/8/8/8 b KQkq - 0 1''" and active_player = "''b''"]
    by (simp add: fixed_engine_def top_move_line_def)
qed

end
